theory Spec2Isabelle
  imports Main "HOL-Library.Word"
begin

section \<open>Values, faults and events\<close>

text \<open>
  The capability functions of package \<^verbatim>\<open>stdlib\<close> receive interpreter values, call the
  host environment (the handler) and return an interpreter value or panic. A run of one
  function is modelled as a function from the host state to a result and the next host
  state; a panic is the left summand of the result.

  Values built by the constructors of package \<^verbatim>\<open>interpreter\<close> are terms of the datatype
  \<open>Value\<close>; the memory gauge and the interpreter argument of the Go functions carry no
  data the functions below look at and are left out.
\<close>

type_synonym byte = "8 word"

text \<open>\<^verbatim>\<open>common.Address\<close> is an array of eight bytes.\<close>
type_synonym Address = "64 word"

text \<open>A Go \<^verbatim>\<open>error\<close> returned by a host method; \<open>None\<close> is \<^verbatim>\<open>nil\<close>.\<close>
type_synonym error = string

type_synonym LocationRange = nat

type_synonym HashAlgorithm = nat
type_synonym SignatureAlgorithm = nat

datatype Value =
    VoidValue
  | NilValue
  | SomeValue Value
  | BoolValue bool
  | IntValue int
  | UInt8Value byte
  | UInt64Value "64 word"
  | UFix64Value "64 word"
  | StringValue string
  | AddressValue Address
  | ArrayValue "Value list"
  | HashAlgorithmCase Value
  | SignatureAlgorithmCase Value
  | PublicKeyValue Value Value
  | AccountKeyValue Value Value Value Value Value
  | DeployedContractValue Value Value Value

text \<open>The messages of \<^verbatim>\<open>errors.NewDefaultUserError\<close>, one constructor for each call.\<close>
datatype UserMessage =
    AddRequiresArray
  | ContractNameEmpty
  | CannotUpdateNonExisting string Address
  | CannotOverwriteExisting string Address

text \<open>
  What a function can panic with. \<open>HostError e\<close> is \<^verbatim>\<open>panic(err)\<close> with the error a
  host method returned, \<open>PanicString\<close> a panic with a plain Go string,
  \<open>IndexOutOfRange\<close> the Go run-time panic of \<^verbatim>\<open>invocation.Arguments[i]\<close> on a short
  argument list, \<open>NilPointerDereference\<close> the Go run-time panic of reading a field
  through a nil pointer, and \<open>ExternalError f\<close> the panic \<open>f\<close> as \<^verbatim>\<open>wrapPanic\<close> re-raises
  it.
\<close>
datatype fault =
    UnreachableError
  | DefaultUserError UserMessage
  | ContractRemovalError string LocationRange
  | HostError error
  | PanicString string
  | OverflowError
  | IndexOutOfRange
  | NilPointerDereference
  | ExternalError fault

text \<open>
  \<^verbatim>\<open>errors.UserError\<close>: the faults that carry the method \<^verbatim>\<open>IsUserError\<close>. The overflow
  error of the interpreter is one of them.
\<close>
fun IsUserError :: "fault \<Rightarrow> bool" where
  "IsUserError (DefaultUserError m) = True"
| "IsUserError (ContractRemovalError n r) = True"
| "IsUserError OverflowError = True"
| "IsUserError f = False"

datatype EventType =
    AccountCreatedEventType
  | AccountKeyAddedEventType
  | AccountKeyRemovedEventType
  | AccountContractAddedEventType
  | AccountContractUpdatedEventType
  | AccountContractRemovedEventType

record PublicKey =
  PublicKey_bytes :: "byte list"
  SignAlgo :: SignatureAlgorithm

text \<open>
  \<^verbatim>\<open>AccountKey\<close>. The Go fields \<^verbatim>\<open>KeyIndex\<close> and \<^verbatim>\<open>Weight\<close> are of type \<^verbatim>\<open>int\<close>; the field
  \<^verbatim>\<open>PublicKey\<close> is a pointer, \<open>None\<close> where it is \<^verbatim>\<open>nil\<close>.
\<close>
record AccountKey =
  KeyIndex :: int
  PublicKey :: "PublicKey option"
  HashAlgo :: HashAlgorithm
  Weight :: int
  IsRevoked :: bool

record Invocation =
  Arguments :: "Value list"
  GetLocationRange :: LocationRange

section \<open>The host environment\<close>

text \<open>
  The handler interfaces (\<^verbatim>\<open>EventEmitter\<close>, \<^verbatim>\<open>StorageUsedProvider\<close>,
  \<^verbatim>\<open>StorageCapacityProvider\<close>, \<^verbatim>\<open>AccountEncodedKeyAdditionHandler\<close>,
  \<^verbatim>\<open>AccountEncodedKeyRevocationHandler\<close>, \<^verbatim>\<open>AccountKeyProvider\<close>,
  \<^verbatim>\<open>AccountKeyRevocationHandler\<close>, \<^verbatim>\<open>AccountContractProvider\<close>,
  \<^verbatim>\<open>AccountContractRemovalHandler\<close>) as one record of methods over a host state \<open>'s\<close>.
  Each method has its Go signature: it returns its results, a pair where Go returns a
  value and an error, together with the next host state. \<^verbatim>\<open>wrapPanic\<close> only re-raises
  a panic raised inside the function it runs, so it is the identity on a host method
  that returns.
\<close>

record 's handler =
  EmitEvent :: "EventType \<Rightarrow> Value list \<Rightarrow> LocationRange \<Rightarrow> 's \<Rightarrow> 's"
  CommitStorage :: "bool \<Rightarrow> 's \<Rightarrow> error option \<times> 's"
  GetStorageUsed :: "Address \<Rightarrow> 's \<Rightarrow> (64 word \<times> error option) \<times> 's"
  GetStorageCapacity :: "Address \<Rightarrow> 's \<Rightarrow> (64 word \<times> error option) \<times> 's"
  AddEncodedAccountKey :: "Address \<Rightarrow> byte list \<Rightarrow> 's \<Rightarrow> error option \<times> 's"
  RevokeEncodedAccountKey :: "Address \<Rightarrow> int \<Rightarrow> 's \<Rightarrow> (byte list \<times> error option) \<times> 's"
  GetAccountKey :: "Address \<Rightarrow> int \<Rightarrow> 's \<Rightarrow> (AccountKey option \<times> error option) \<times> 's"
  RevokeAccountKey :: "Address \<Rightarrow> int \<Rightarrow> 's \<Rightarrow> (AccountKey option \<times> error option) \<times> 's"
  GetAccountContractCode :: "Address \<Rightarrow> string \<Rightarrow> 's \<Rightarrow> (byte list \<times> error option) \<times> 's"
  RemoveAccountContractCode :: "Address \<Rightarrow> string \<Rightarrow> 's \<Rightarrow> error option \<times> 's"
  RecordContractRemoval :: "Address \<Rightarrow> string \<Rightarrow> 's \<Rightarrow> 's"

text \<open>
  The functions of the packages \<^verbatim>\<open>interpreter\<close>, \<^verbatim>\<open>sema\<close>, \<^verbatim>\<open>parser\<close> and \<^verbatim>\<open>sha3\<close> and
  the functions \<^verbatim>\<open>containsEnumsInProgram\<close>, \<^verbatim>\<open>NewHashAlgorithmCase\<close>,
  \<^verbatim>\<open>NewSignatureAlgorithmCase\<close> and \<^verbatim>\<open>wrapPanic\<close> that the capability functions call are
  not part of the sources at hand. They are parameters of the model, and each of them
  that can panic returns a sum: \<open>'p\<close> is the type of a parsed program, \<open>ToInt\<close> is
  \<^verbatim>\<open>IntValue.ToInt\<close>, \<open>ByteArrayValueToByteSlice\<close> yields \<open>None\<close> where the Go function
  returns an error, \<open>ParseProgram\<close> returns the program together with the parser's
  error, \<open>HashAlgorithm_RawValue\<close> and \<open>SignatureAlgorithm_RawValue\<close> are the methods
  \<^verbatim>\<open>RawValue\<close> of the two algorithm types, \<open>NewUFix64ValueWithInteger\<close> is the
  constructor of that name, and \<open>wrapPanic\<close> maps a panic raised inside the function
  that \<^verbatim>\<open>wrapPanic\<close> runs to the panic it re-raises.
\<close>

record 'p interp =
  ToInt :: "int \<Rightarrow> fault + int"
  ByteArrayValueToByteSlice :: "Value \<Rightarrow> byte list option"
  ByteSliceToByteArrayValue :: "byte list \<Rightarrow> Value"
  ParseProgram :: "byte list \<Rightarrow> 'p \<times> error option"
  containsEnumsInProgram :: "'p \<Rightarrow> bool"
  Sum256 :: "byte list \<Rightarrow> byte list"
  HashAlgorithm_RawValue :: "HashAlgorithm \<Rightarrow> fault + byte"
  SignatureAlgorithm_RawValue :: "SignatureAlgorithm \<Rightarrow> fault + byte"
  NewHashAlgorithmCase :: "Value \<Rightarrow> fault + Value"
  NewSignatureAlgorithmCase :: "Value \<Rightarrow> fault + Value"
  NewUFix64ValueWithInteger :: "64 word \<Rightarrow> fault + Value"
  wrapPanic :: "fault \<Rightarrow> fault"

section \<open>Value construction\<close>

definition CodeToHashValue :: "'p interp \<Rightarrow> byte list \<Rightarrow> Value" where
  "CodeToHashValue I code = ByteSliceToByteArrayValue I (Sum256 I code)"

text \<open>
  \<^verbatim>\<open>NewPublicKeyValue\<close> and \<^verbatim>\<open>NewAccountKeyValue\<close>, for the validation function that
  \<^verbatim>\<open>keys.get\<close> and \<^verbatim>\<open>keys.revoke\<close> pass, which returns \<^verbatim>\<open>nil\<close> for every key. Go
  evaluates the arguments of a call from left to right, and the first panic ends the
  evaluation: reading \<^verbatim>\<open>publicKey.PublicKey\<close> through a nil pointer, a raw value of an
  algorithm, the case of an algorithm, the weight. \<^verbatim>\<open>uint64(accountKey.Weight)\<close> wraps
  around, as \<open>word_of_int\<close> does.
\<close>

definition NewPublicKeyValue :: "'p interp \<Rightarrow> PublicKey option \<Rightarrow> fault + Value" where
  "NewPublicKeyValue I publicKey =
     (case publicKey of
        None \<Rightarrow> Inl NilPointerDereference
      | Some pk \<Rightarrow>
          (case SignatureAlgorithm_RawValue I (SignAlgo pk) of
             Inl f \<Rightarrow> Inl f
           | Inr rawValue \<Rightarrow>
               (case NewSignatureAlgorithmCase I (UInt8Value rawValue) of
                  Inl f \<Rightarrow> Inl f
                | Inr signAlgo \<Rightarrow>
                    Inr (PublicKeyValue
                           (ByteSliceToByteArrayValue I (PublicKey_bytes pk)) signAlgo))))"

definition NewAccountKeyValue :: "'p interp \<Rightarrow> AccountKey \<Rightarrow> fault + Value" where
  "NewAccountKeyValue I accountKey =
     (case NewPublicKeyValue I (PublicKey accountKey) of
        Inl f \<Rightarrow> Inl f
      | Inr publicKeyValue \<Rightarrow>
          (case HashAlgorithm_RawValue I (HashAlgo accountKey) of
             Inl f \<Rightarrow> Inl f
           | Inr rawValue \<Rightarrow>
               (case NewHashAlgorithmCase I (UInt8Value rawValue) of
                  Inl f \<Rightarrow> Inl f
                | Inr hashAlgo \<Rightarrow>
                    (case NewUFix64ValueWithInteger I (word_of_int (Weight accountKey)) of
                       Inl f \<Rightarrow> Inl f
                     | Inr weight \<Rightarrow>
                         Inr (AccountKeyValue
                                (IntValue (KeyIndex accountKey))
                                publicKeyValue
                                hashAlgo
                                weight
                                (BoolValue (IsRevoked accountKey)))))))"

section \<open>Storage functions\<close>

definition newStorageUsedGetFunction ::
  "'s handler \<Rightarrow> Address \<Rightarrow> 's \<Rightarrow> (fault + Value) \<times> 's" where
  "newStorageUsedGetFunction provider addressValue s =
     (case CommitStorage provider False s of
        (Some err, s1) \<Rightarrow> (Inl (HostError err), s1)
      | (None, s1) \<Rightarrow>
          (case GetStorageUsed provider addressValue s1 of
             ((capacity, Some err), s2) \<Rightarrow> (Inl (HostError err), s2)
           | ((capacity, None), s2) \<Rightarrow> (Inr (UInt64Value capacity), s2)))"

definition newStorageCapacityGetFunction ::
  "'s handler \<Rightarrow> Address \<Rightarrow> 's \<Rightarrow> (fault + Value) \<times> 's" where
  "newStorageCapacityGetFunction provider addressValue s =
     (case CommitStorage provider False s of
        (Some err, s1) \<Rightarrow> (Inl (HostError err), s1)
      | (None, s1) \<Rightarrow>
          (case GetStorageCapacity provider addressValue s1 of
             ((capacity, Some err), s2) \<Rightarrow> (Inl (HostError err), s2)
           | ((capacity, None), s2) \<Rightarrow> (Inr (UInt64Value capacity), s2)))"

section \<open>Legacy functions on encoded keys\<close>

text \<open>
  In \<^verbatim>\<open>newRemovePublicKeyFunction\<close> the index is converted inside the function that
  \<^verbatim>\<open>wrapPanic\<close> runs, so a panic of the conversion is re-raised by \<^verbatim>\<open>wrapPanic\<close>.
\<close>

definition newAddPublicKeyFunction ::
  "'p interp \<Rightarrow> 's handler \<Rightarrow> Address \<Rightarrow> Invocation \<Rightarrow> 's \<Rightarrow> (fault + Value) \<times> 's" where
  "newAddPublicKeyFunction I h addressValue invocation s =
     (case Arguments invocation of
        [] \<Rightarrow> (Inl IndexOutOfRange, s)
      | publicKeyValue # rest \<Rightarrow>
          (case publicKeyValue of
             ArrayValue elements \<Rightarrow>
               (case ByteArrayValueToByteSlice I publicKeyValue of
                  None \<Rightarrow>
                    (Inl (PanicString
                       ''addPublicKey requires the first argument to be a byte array''), s)
                | Some publicKey \<Rightarrow>
                    (case AddEncodedAccountKey h addressValue publicKey s of
                       (Some err, s1) \<Rightarrow> (Inl (HostError err), s1)
                     | (None, s1) \<Rightarrow>
                         (Inr VoidValue,
                          EmitEvent h AccountKeyAddedEventType
                            [AddressValue addressValue, publicKeyValue]
                            (GetLocationRange invocation) s1)))
           | _ \<Rightarrow> (Inl UnreachableError, s)))"

definition newRemovePublicKeyFunction ::
  "'p interp \<Rightarrow> 's handler \<Rightarrow> Address \<Rightarrow> Invocation \<Rightarrow> 's \<Rightarrow> (fault + Value) \<times> 's" where
  "newRemovePublicKeyFunction I h addressValue invocation s =
     (case Arguments invocation of
        [] \<Rightarrow> (Inl IndexOutOfRange, s)
      | arg0 # rest \<Rightarrow>
          (case arg0 of
             IntValue index \<Rightarrow>
               (case ToInt I index of
                  Inl f \<Rightarrow> (Inl (wrapPanic I f), s)
                | Inr i \<Rightarrow>
                    (case RevokeEncodedAccountKey h addressValue i s of
                       ((publicKey, Some err), s1) \<Rightarrow> (Inl (HostError err), s1)
                     | ((publicKey, None), s1) \<Rightarrow>
                         (Inr VoidValue,
                          EmitEvent h AccountKeyRemovedEventType
                            [AddressValue addressValue, ByteSliceToByteArrayValue I publicKey]
                            (GetLocationRange invocation) s1)))
           | _ \<Rightarrow> (Inl UnreachableError, s)))"

section \<open>Account keys\<close>


definition newAccountKeysRevokeFunction ::
  "'p interp \<Rightarrow> 's handler \<Rightarrow> Address \<Rightarrow> Invocation \<Rightarrow> 's \<Rightarrow> (fault + Value) \<times> 's" where
  "newAccountKeysRevokeFunction I h addressValue invocation s =
     (case Arguments invocation of
        [] \<Rightarrow> (Inl IndexOutOfRange, s)
      | indexValue # rest \<Rightarrow>
          (case indexValue of
             IntValue n \<Rightarrow>
               (case ToInt I n of
                  Inl f \<Rightarrow> (Inl f, s)
                | Inr index \<Rightarrow>
                    (case RevokeAccountKey h addressValue index s of
                       ((accountKey, Some err), s1) \<Rightarrow> (Inl (HostError err), s1)
                     | ((None, None), s1) \<Rightarrow> (Inr NilValue, s1)
                     | ((Some k, None), s1) \<Rightarrow>
                         (let s2 = EmitEvent h AccountKeyRemovedEventType
                                     [AddressValue addressValue, indexValue]
                                     (GetLocationRange invocation) s1
                          in case NewAccountKeyValue I k of
                               Inl f \<Rightarrow> (Inl f, s2)
                             | Inr accountKeyValue \<Rightarrow> (Inr (SomeValue accountKeyValue), s2))))
           | _ \<Rightarrow> (Inl UnreachableError, s)))"

section \<open>Account contracts\<close>

definition newAccountContractsGetFunction ::
  "'p interp \<Rightarrow> 's handler \<Rightarrow> Address \<Rightarrow> Invocation \<Rightarrow> 's \<Rightarrow> (fault + Value) \<times> 's" where
  "newAccountContractsGetFunction I provider addressValue invocation s =
     (case Arguments invocation of
        [] \<Rightarrow> (Inl IndexOutOfRange, s)
      | nameValue # rest \<Rightarrow>
          (case nameValue of
             StringValue name \<Rightarrow>
               (case GetAccountContractCode provider addressValue name s of
                  ((code, Some err), s1) \<Rightarrow> (Inl (HostError err), s1)
                | ((code, None), s1) \<Rightarrow>
                    (if length code > 0
                     then (Inr (SomeValue
                             (DeployedContractValue (AddressValue addressValue) nameValue
                                (ByteSliceToByteArrayValue I code))), s1)
                     else (Inr NilValue, s1)))
           | _ \<Rightarrow> (Inl UnreachableError, s)))"

text \<open>
  \<^verbatim>\<open>newAuthAccountContractsChangeFunction\<close>: \<^verbatim>\<open>contracts.add\<close> with \<open>isUpdate = False\<close>,
  \<^verbatim>\<open>contracts.update__experimental\<close> with \<open>isUpdate = True\<close>. Between the check of the
  existing code and the event the Go function holds only commented-out code (marked
  \<^verbatim>\<open>TODO\<close>): the check of the new program and the call of
  \<^verbatim>\<open>updateAccountContractCode\<close>. Nothing of it runs, so nothing of it is in the model.
  \<open>emitAndReturn\<close> is the rest of the Go function after the two checks of the existing
  code.
\<close>

definition newAuthAccountContractsChangeFunction ::
  "'p interp \<Rightarrow> 's handler \<Rightarrow> Address \<Rightarrow> bool \<Rightarrow> Invocation \<Rightarrow> 's
     \<Rightarrow> (fault + Value) \<times> 's" where
  "newAuthAccountContractsChangeFunction I h addressValue isUpdate invocation s =
     (case Arguments invocation of
        [] \<Rightarrow> (Inl IndexOutOfRange, s)
      | nameValue # rest \<Rightarrow>
          (case nameValue of
             StringValue nameArgument \<Rightarrow>
               (case rest of
                  [] \<Rightarrow> (Inl IndexOutOfRange, s)
                | newCodeValue # rest' \<Rightarrow>
                    (case newCodeValue of
                       ArrayValue elements \<Rightarrow>
                         (case ByteArrayValueToByteSlice I newCodeValue of
                            None \<Rightarrow> (Inl (DefaultUserError AddRequiresArray), s)
                          | Some code \<Rightarrow>
                              if nameArgument = []
                              then (Inl (DefaultUserError ContractNameEmpty), s)
                              else
                                (case GetAccountContractCode h addressValue nameArgument s of
                                   ((existingCode, Some err), s1) \<Rightarrow> (Inl (HostError err), s1)
                                 | ((existingCode, None), s1) \<Rightarrow>
                                     let emitAndReturn =
                                       (Inr (DeployedContractValue (AddressValue addressValue)
                                               nameValue newCodeValue),
                                        EmitEvent h
                                          (if isUpdate then AccountContractUpdatedEventType
                                           else AccountContractAddedEventType)
                                          [AddressValue addressValue, CodeToHashValue I code,
                                           nameValue]
                                          (GetLocationRange invocation) s1)
                                     in
                                       if isUpdate
                                       then
                                         if length existingCode = 0
                                         then (Inl (DefaultUserError
                                                 (CannotUpdateNonExisting nameArgument
                                                    addressValue)), s1)
                                         else emitAndReturn
                                       else
                                         if length existingCode > 0
                                         then (Inl (DefaultUserError
                                                 (CannotOverwriteExisting nameArgument
                                                    addressValue)), s1)
                                         else emitAndReturn))
                     | _ \<Rightarrow> (Inl UnreachableError, s)))
           | _ \<Rightarrow> (Inl UnreachableError, s)))"

definition newAuthAccountContractsRemoveFunction ::
  "'p interp \<Rightarrow> 's handler \<Rightarrow> Address \<Rightarrow> Invocation \<Rightarrow> 's \<Rightarrow> (fault + Value) \<times> 's" where
  "newAuthAccountContractsRemoveFunction I h addressValue invocation s =
     (case Arguments invocation of
        [] \<Rightarrow> (Inl IndexOutOfRange, s)
      | nameValue # rest \<Rightarrow>
          (case nameValue of
             StringValue name \<Rightarrow>
               (case GetAccountContractCode h addressValue name s of
                  ((code, Some err), s1) \<Rightarrow> (Inl (HostError err), s1)
                | ((code, None), s1) \<Rightarrow>
                    if length code > 0
                    then
                      (case ParseProgram I code of
                         (existingProgram, perr) \<Rightarrow>
                           if perr = None \<and> containsEnumsInProgram I existingProgram
                           then (Inl (ContractRemovalError name (GetLocationRange invocation)), s1)
                           else
                             (case RemoveAccountContractCode h addressValue name s1 of
                                (Some err, s2) \<Rightarrow> (Inl (HostError err), s2)
                              | (None, s2) \<Rightarrow>
                                  (Inr (SomeValue
                                          (DeployedContractValue (AddressValue addressValue)
                                             nameValue (ByteSliceToByteArrayValue I code))),
                                   EmitEvent h AccountContractRemovedEventType
                                     [AddressValue addressValue, CodeToHashValue I code, nameValue]
                                     (GetLocationRange invocation)
                                     (RecordContractRemoval h addressValue name s2))))
                    else (Inr NilValue, s1))
           | _ \<Rightarrow> (Inl UnreachableError, s)))"

section \<open>Recording the calls of the host\<close>

text \<open>
  To speak about which host methods a function calls, and in which order, a handler is
  wrapped into one that appends every call it receives to a log kept beside the host
  state, and otherwise behaves as the handler it wraps.
\<close>

datatype call =
    C_EmitEvent EventType "Value list" LocationRange
  | C_CommitStorage bool
  | C_GetStorageUsed Address
  | C_GetStorageCapacity Address
  | C_AddEncodedAccountKey Address "byte list"
  | C_RevokeEncodedAccountKey Address int
  | C_GetAccountKey Address int
  | C_RevokeAccountKey Address int
  | C_GetAccountContractCode Address string
  | C_RemoveAccountContractCode Address string
  | C_RecordContractRemoval Address string

definition logged :: "'s handler \<Rightarrow> ('s \<times> call list) handler" where
  "logged h =
     \<lparr> EmitEvent = (\<lambda>t vs r (s, l). (EmitEvent h t vs r s, l @ [C_EmitEvent t vs r])),
       CommitStorage = (\<lambda>b (s, l).
         (fst (CommitStorage h b s), (snd (CommitStorage h b s), l @ [C_CommitStorage b]))),
       GetStorageUsed = (\<lambda>a (s, l).
         (fst (GetStorageUsed h a s), (snd (GetStorageUsed h a s), l @ [C_GetStorageUsed a]))),
       GetStorageCapacity = (\<lambda>a (s, l).
         (fst (GetStorageCapacity h a s),
          (snd (GetStorageCapacity h a s), l @ [C_GetStorageCapacity a]))),
       AddEncodedAccountKey = (\<lambda>a k (s, l).
         (fst (AddEncodedAccountKey h a k s),
          (snd (AddEncodedAccountKey h a k s), l @ [C_AddEncodedAccountKey a k]))),
       RevokeEncodedAccountKey = (\<lambda>a i (s, l).
         (fst (RevokeEncodedAccountKey h a i s),
          (snd (RevokeEncodedAccountKey h a i s), l @ [C_RevokeEncodedAccountKey a i]))),
       GetAccountKey = (\<lambda>a i (s, l).
         (fst (GetAccountKey h a i s), (snd (GetAccountKey h a i s), l @ [C_GetAccountKey a i]))),
       RevokeAccountKey = (\<lambda>a i (s, l).
         (fst (RevokeAccountKey h a i s),
          (snd (RevokeAccountKey h a i s), l @ [C_RevokeAccountKey a i]))),
       GetAccountContractCode = (\<lambda>a n (s, l).
         (fst (GetAccountContractCode h a n s),
          (snd (GetAccountContractCode h a n s), l @ [C_GetAccountContractCode a n]))),
       RemoveAccountContractCode = (\<lambda>a n (s, l).
         (fst (RemoveAccountContractCode h a n s),
          (snd (RemoveAccountContractCode h a n s), l @ [C_RemoveAccountContractCode a n]))),
       RecordContractRemoval = (\<lambda>a n (s, l).
         (RecordContractRemoval h a n s, l @ [C_RecordContractRemoval a n])) \<rparr>"

text \<open>The calls that are events, and the calls that change what the host stores.\<close>

fun is_event :: "call \<Rightarrow> bool" where
  "is_event (C_EmitEvent t vs r) = True"
| "is_event c = False"

fun is_mutation :: "call \<Rightarrow> bool" where
  "is_mutation (C_AddEncodedAccountKey a k) = True"
| "is_mutation (C_RevokeEncodedAccountKey a i) = True"
| "is_mutation (C_RevokeAccountKey a i) = True"
| "is_mutation (C_RemoveAccountContractCode a n) = True"
| "is_mutation (C_RecordContractRemoval a n) = True"
| "is_mutation c = False"

definition effects :: "call list \<Rightarrow> call list" where
  "effects l = filter (\<lambda>c. is_event c \<or> is_mutation c) l"

section \<open>A host and an interpreter to run the functions on\<close>

text \<open>
  A small in-memory host, used where a statement is evaluated on concrete inputs: the
  code of the contracts, the encoded keys and the account keys are association lists,
  events and recorded removals are appended to lists. Its \<open>GetAccountContractCode\<close>
  answers with the empty code for a name that has none, its \<open>GetAccountKey\<close> and
  \<open>RevokeAccountKey\<close> with no key for an index that has none.
\<close>

record ledger =
  contracts :: "((Address \<times> string) \<times> byte list) list"
  encodedKeys :: "(Address \<times> byte list) list"
  accountKeys :: "((Address \<times> int) \<times> AccountKey) list"
  events :: "(EventType \<times> Value list) list"
  removals :: "(Address \<times> string) list"
  committed :: "bool list"

definition keysOf :: "Address \<Rightarrow> ledger \<Rightarrow> byte list list" where
  "keysOf a s = map snd (filter (\<lambda>e. fst e = a) (encodedKeys s))"

definition codeOf :: "Address \<Rightarrow> string \<Rightarrow> ledger \<Rightarrow> byte list" where
  "codeOf a n s = (case map_of (contracts s) (a, n) of None \<Rightarrow> [] | Some c \<Rightarrow> c)"

definition ledgerHandler :: "ledger handler" where
  "ledgerHandler =
     \<lparr> EmitEvent = (\<lambda>t vs r s. s\<lparr>events := events s @ [(t, vs)]\<rparr>),
       CommitStorage = (\<lambda>b s. (None, s\<lparr>committed := committed s @ [b]\<rparr>)),
       GetStorageUsed = (\<lambda>a s. ((word_of_nat (length (concat (map snd (contracts s)))), None), s)),
       GetStorageCapacity = (\<lambda>a s. ((100000, None), s)),
       AddEncodedAccountKey = (\<lambda>a k s. (None, s\<lparr>encodedKeys := encodedKeys s @ [(a, k)]\<rparr>)),
       RevokeEncodedAccountKey = (\<lambda>a i s.
         if 0 \<le> i \<and> nat i < length (keysOf a s)
         then ((keysOf a s ! nat i, None), s)
         else (([], Some ''no key at this index''), s)),
       GetAccountKey = (\<lambda>a i s. ((map_of (accountKeys s) (a, i), None), s)),
       RevokeAccountKey = (\<lambda>a i s.
         case map_of (accountKeys s) (a, i) of
           None \<Rightarrow> ((None, None), s)
         | Some k \<Rightarrow>
             ((Some (k\<lparr>IsRevoked := True\<rparr>), None),
              s\<lparr>accountKeys := ((a, i), k\<lparr>IsRevoked := True\<rparr>) # accountKeys s\<rparr>)),
       GetAccountContractCode = (\<lambda>a n s. ((codeOf a n s, None), s)),
       RemoveAccountContractCode = (\<lambda>a n s.
         (None, s\<lparr>contracts := filter (\<lambda>e. fst e \<noteq> (a, n)) (contracts s)\<rparr>)),
       RecordContractRemoval = (\<lambda>a n s. s\<lparr>removals := removals s @ [(a, n)]\<rparr>) \<rparr>"

text \<open>The same host with a storage that fails: its fallible methods return an error.\<close>

definition failingHandler :: "ledger handler" where
  "failingHandler =
     ledgerHandler
       \<lparr> CommitStorage := (\<lambda>b s. (Some ''commit failed'', s)),
         GetAccountKey := (\<lambda>a i s. ((None, Some ''storage corrupt''), s)),
         RevokeAccountKey := (\<lambda>a i s. ((None, Some ''storage corrupt''), s)),
         RemoveAccountContractCode := (\<lambda>a n s. (Some ''storage corrupt'', s)) \<rparr>"

definition emptyLedger :: ledger where
  "emptyLedger =
     \<lparr> contracts = [], encodedKeys = [], accountKeys = [], events = [], removals = [],
       committed = [] \<rparr>"

text \<open>
  An interpreter for the same purpose. A byte array value is an array of \<open>UInt8Value\<close>s;
  the stand-in for the parser rejects code that holds a zero byte, the stand-in for
  \<^verbatim>\<open>containsEnumsInProgram\<close> looks for the byte 69, the stand-in for the hash is the
  length of the code. The stand-ins for the raw values know the hash algorithms 1 to 6
  and the signature algorithms 1 to 3. \<open>NewUFix64ValueWithInteger\<close> panics with the
  overflow error above 184467440737, the largest integer whose product with the factor
  100000000 of the fixed-point type fits 64 bits. The stand-in for \<^verbatim>\<open>wrapPanic\<close> leaves
  Go run-time errors and internal errors as they are and wraps every other panic.
\<close>

fun byteOf :: "Value \<Rightarrow> byte option" where
  "byteOf (UInt8Value b) = Some b"
| "byteOf v = None"

fun bytesOf :: "Value list \<Rightarrow> byte list option" where
  "bytesOf [] = Some []"
| "bytesOf (v # vs) =
     (case byteOf v of
        None \<Rightarrow> None
      | Some b \<Rightarrow> (case bytesOf vs of None \<Rightarrow> None | Some bs \<Rightarrow> Some (b # bs)))"

fun sliceOf :: "Value \<Rightarrow> byte list option" where
  "sliceOf (ArrayValue vs) = bytesOf vs"
| "sliceOf v = None"

fun wrapFault :: "fault \<Rightarrow> fault" where
  "wrapFault UnreachableError = UnreachableError"
| "wrapFault IndexOutOfRange = IndexOutOfRange"
| "wrapFault NilPointerDereference = NilPointerDereference"
| "wrapFault f = ExternalError f"

definition sampleInterp :: "(byte list) interp" where
  "sampleInterp =
     \<lparr> ToInt = (\<lambda>i. if - (2 ^ 63) \<le> i \<and> i < 2 ^ 63 then Inr i else Inl OverflowError),
       ByteArrayValueToByteSlice = sliceOf,
       ByteSliceToByteArrayValue = (\<lambda>bs. ArrayValue (map UInt8Value bs)),
       ParseProgram = (\<lambda>code. (code, if 0 \<in> set code then Some ''syntax error'' else None)),
       containsEnumsInProgram = (\<lambda>p. 69 \<in> set p),
       Sum256 = (\<lambda>code. [word_of_nat (length code)]),
       HashAlgorithm_RawValue =
         (\<lambda>a. if 1 \<le> a \<and> a \<le> 6 then Inr (word_of_nat a) else Inl UnreachableError),
       SignatureAlgorithm_RawValue =
         (\<lambda>a. if 1 \<le> a \<and> a \<le> 3 then Inr (word_of_nat a) else Inl UnreachableError),
       NewHashAlgorithmCase = (\<lambda>v. Inr (HashAlgorithmCase v)),
       NewSignatureAlgorithmCase = (\<lambda>v. Inr (SignatureAlgorithmCase v)),
       NewUFix64ValueWithInteger =
         (\<lambda>w. if 184467440737 < w then Inl OverflowError
              else Inr (UFix64Value (w * 100000000))),
       wrapPanic = wrapFault \<rparr>"

definition sampleKey :: AccountKey where
  "sampleKey =
     \<lparr> KeyIndex = 0, PublicKey = Some \<lparr> PublicKey_bytes = [1, 2], SignAlgo = 1 \<rparr>,
       HashAlgo = 3, Weight = 1000, IsRevoked = False \<rparr>"

text \<open>
  Two keys that a host can hand over and that have no value: one whose weight is too
  large for the fixed-point type, one whose public key is not set.
\<close>

definition heavyKey :: AccountKey where
  "heavyKey = sampleKey\<lparr>Weight := 200000000000\<rparr>"

definition unsetKey :: AccountKey where
  "unsetKey = sampleKey\<lparr>KeyIndex := 1, PublicKey := None\<rparr>"

text \<open>Ledgers and invocations for the concrete runs.\<close>

definition ledgerWith :: "byte list \<Rightarrow> ledger" where
  "ledgerWith code = emptyLedger\<lparr>contracts := [((1, ''Foo''), code)]\<rparr>"

definition keyLedger :: ledger where
  "keyLedger = emptyLedger\<lparr>accountKeys := [((1, 0), sampleKey)]\<rparr>"

definition badKeyLedger :: ledger where
  "badKeyLedger = emptyLedger\<lparr>accountKeys := [((1, 0), heavyKey), ((1, 1), unsetKey)]\<rparr>"

definition keyBytes :: Value where
  "keyBytes = ArrayValue [UInt8Value 1, UInt8Value 2, UInt8Value 3]"

definition invoke :: "Value list \<Rightarrow> Invocation" where
  "invoke vs = \<lparr> Arguments = vs, GetLocationRange = 0 \<rparr>"

section \<open>The logging handler\<close>

lemma logged_EmitEvent:
  "EmitEvent (logged h) t vs r (s, l) = (EmitEvent h t vs r s, l @ [C_EmitEvent t vs r])"
  by (simp add: logged_def)

lemma logged_CommitStorage:
  "CommitStorage (logged h) b (s, l) =
     (fst (CommitStorage h b s), (snd (CommitStorage h b s), l @ [C_CommitStorage b]))"
  by (simp add: logged_def)

lemma logged_GetStorageUsed:
  "GetStorageUsed (logged h) a (s, l) =
     (fst (GetStorageUsed h a s), (snd (GetStorageUsed h a s), l @ [C_GetStorageUsed a]))"
  by (simp add: logged_def)

lemma logged_GetStorageCapacity:
  "GetStorageCapacity (logged h) a (s, l) =
     (fst (GetStorageCapacity h a s),
      (snd (GetStorageCapacity h a s), l @ [C_GetStorageCapacity a]))"
  by (simp add: logged_def)

lemma logged_AddEncodedAccountKey:
  "AddEncodedAccountKey (logged h) a k (s, l) =
     (fst (AddEncodedAccountKey h a k s),
      (snd (AddEncodedAccountKey h a k s), l @ [C_AddEncodedAccountKey a k]))"
  by (simp add: logged_def)

lemma logged_RevokeEncodedAccountKey:
  "RevokeEncodedAccountKey (logged h) a i (s, l) =
     (fst (RevokeEncodedAccountKey h a i s),
      (snd (RevokeEncodedAccountKey h a i s), l @ [C_RevokeEncodedAccountKey a i]))"
  by (simp add: logged_def)

lemma logged_GetAccountKey:
  "GetAccountKey (logged h) a i (s, l) =
     (fst (GetAccountKey h a i s), (snd (GetAccountKey h a i s), l @ [C_GetAccountKey a i]))"
  by (simp add: logged_def)

lemma logged_RevokeAccountKey:
  "RevokeAccountKey (logged h) a i (s, l) =
     (fst (RevokeAccountKey h a i s),
      (snd (RevokeAccountKey h a i s), l @ [C_RevokeAccountKey a i]))"
  by (simp add: logged_def)

lemma logged_GetAccountContractCode:
  "GetAccountContractCode (logged h) a n (s, l) =
     (fst (GetAccountContractCode h a n s),
      (snd (GetAccountContractCode h a n s), l @ [C_GetAccountContractCode a n]))"
  by (simp add: logged_def)

lemma logged_RemoveAccountContractCode:
  "RemoveAccountContractCode (logged h) a n (s, l) =
     (fst (RemoveAccountContractCode h a n s),
      (snd (RemoveAccountContractCode h a n s), l @ [C_RemoveAccountContractCode a n]))"
  by (simp add: logged_def)

lemma logged_RecordContractRemoval:
  "RecordContractRemoval (logged h) a n (s, l) =
     (RecordContractRemoval h a n s, l @ [C_RecordContractRemoval a n])"
  by (simp add: logged_def)

lemmas logged_simps =
  logged_EmitEvent logged_CommitStorage logged_GetStorageUsed logged_GetStorageCapacity
  logged_AddEncodedAccountKey logged_RevokeEncodedAccountKey logged_GetAccountKey
  logged_RevokeAccountKey logged_GetAccountContractCode logged_RemoveAccountContractCode
  logged_RecordContractRemoval

lemmas sample_defs =
  ledgerHandler_def failingHandler_def emptyLedger_def sampleInterp_def ledgerWith_def
  keyLedger_def invoke_def codeOf_def keysOf_def sampleKey_def heavyKey_def unsetKey_def
  badKeyLedger_def

section \<open>Contracts: the preconditions of add and update\<close>

text \<open>
  Claim C1. Let the arguments be a name and an array, and let the host answer
  \<open>GetAccountContractCode\<close> for the address and the name with the code \<open>existingCode\<close> and
  no error. When \<^verbatim>\<open>add\<close> (\<open>isUpdate = False\<close>) finds \<open>existingCode\<close> non-empty, or
  \<^verbatim>\<open>update\<close> (\<open>isUpdate = True\<close>) finds it empty, the function panics with a user error.
  The host has then received at most the one read of the code, which is asked only for
  a non-empty name and a code argument that is a byte array: no event is emitted and no
  mutating method is called, and the host state is the one the read returned.
\<close>

theorem change_rejects_before_any_effect:
  assumes args: "Arguments ivc = StringValue name # ArrayValue elems # rest"
    and get: "GetAccountContractCode h addr name s = ((existingCode, None), s1)"
    and pre: "(\<not> isUpdate \<and> existingCode \<noteq> []) \<or> (isUpdate \<and> existingCode = [])"
  shows "newAuthAccountContractsChangeFunction I (logged h) addr isUpdate ivc (s, l) =
           (if ByteArrayValueToByteSlice I (ArrayValue elems) = None
            then (Inl (DefaultUserError AddRequiresArray), (s, l))
            else if name = [] then (Inl (DefaultUserError ContractNameEmpty), (s, l))
            else (Inl (DefaultUserError
                        (if isUpdate then CannotUpdateNonExisting name addr
                         else CannotOverwriteExisting name addr)),
                  (s1, l @ [C_GetAccountContractCode addr name])))
         \<and> (case fst (newAuthAccountContractsChangeFunction I (logged h) addr isUpdate ivc (s, l))
            of Inl f \<Rightarrow> IsUserError f | Inr v \<Rightarrow> False)
         \<and> effects (snd (snd (newAuthAccountContractsChangeFunction I (logged h) addr isUpdate
                                 ivc (s, l)))) = effects l"
proof -
  have eq: "newAuthAccountContractsChangeFunction I (logged h) addr isUpdate ivc (s, l) =
           (if ByteArrayValueToByteSlice I (ArrayValue elems) = None
            then (Inl (DefaultUserError AddRequiresArray), (s, l))
            else if name = [] then (Inl (DefaultUserError ContractNameEmpty), (s, l))
            else (Inl (DefaultUserError
                        (if isUpdate then CannotUpdateNonExisting name addr
                         else CannotOverwriteExisting name addr)),
                  (s1, l @ [C_GetAccountContractCode addr name])))"
    using pre
    by (auto simp add: newAuthAccountContractsChangeFunction_def Let_def logged_simps args get
          split: option.splits)
  show ?thesis
    unfolding eq by (simp add: effects_def)
qed

text \<open>
  On the ledger: \<^verbatim>\<open>add\<close> of a name that has code, and \<^verbatim>\<open>update\<close> of a name that has
  none.
\<close>

theorem change_rejects_before_any_effect_witness:
  "newAuthAccountContractsChangeFunction sampleInterp (logged ledgerHandler) 1 False
     (invoke [StringValue ''Foo'', ArrayValue [UInt8Value 9]]) (ledgerWith [7], []) =
   (Inl (DefaultUserError (CannotOverwriteExisting ''Foo'' 1)),
    (ledgerWith [7], [C_GetAccountContractCode 1 ''Foo'']))
   \<and> newAuthAccountContractsChangeFunction sampleInterp (logged ledgerHandler) 1 True
     (invoke [StringValue ''Foo'', ArrayValue [UInt8Value 9]]) (emptyLedger, []) =
   (Inl (DefaultUserError (CannotUpdateNonExisting ''Foo'' 1)),
    (emptyLedger, [C_GetAccountContractCode 1 ''Foo'']))"
  using change_rejects_before_any_effect
      [where ivc = "invoke [StringValue ''Foo'', ArrayValue [UInt8Value 9]]"
         and name = "''Foo''" and elems = "[UInt8Value 9]" and rest = "[]"
         and h = ledgerHandler and addr = 1 and s = "ledgerWith [7]" and existingCode = "[7]"
         and ?s1.0 = "ledgerWith [7]" and isUpdate = False and I = sampleInterp and l = "[]"]
    change_rejects_before_any_effect
      [where ivc = "invoke [StringValue ''Foo'', ArrayValue [UInt8Value 9]]"
         and name = "''Foo''" and elems = "[UInt8Value 9]" and rest = "[]"
         and h = ledgerHandler and addr = 1 and s = emptyLedger and existingCode = "[]"
         and ?s1.0 = emptyLedger and isUpdate = True and I = sampleInterp and l = "[]"]
  by (simp add: sample_defs)

section \<open>Contracts: removal of code that declares an enum\<close>

text \<open>
  Claim C2. When the code stored under the name is non-empty, parses without an error
  and declares an enum, \<^verbatim>\<open>contracts.remove\<close> panics with \<open>ContractRemovalError\<close>. The
  host has received the read of the code and nothing else: neither
  \<open>RemoveAccountContractCode\<close> nor \<open>RecordContractRemoval\<close> is called and no event is
  emitted, and the host state is the one the read returned.
\<close>

theorem remove_enum_forbidden:
  assumes args: "Arguments ivc = StringValue name # rest"
    and get: "GetAccountContractCode h addr name s = ((code, None), s1)"
    and code: "code \<noteq> []"
    and parse: "ParseProgram I code = (prog, None)"
    and enums: "containsEnumsInProgram I prog"
  shows "newAuthAccountContractsRemoveFunction I (logged h) addr ivc (s, l) =
           (Inl (ContractRemovalError name (GetLocationRange ivc)),
            (s1, l @ [C_GetAccountContractCode addr name]))
         \<and> effects (snd (snd (newAuthAccountContractsRemoveFunction I (logged h) addr ivc (s, l))))
             = effects l"
proof -
  have eq: "newAuthAccountContractsRemoveFunction I (logged h) addr ivc (s, l) =
           (Inl (ContractRemovalError name (GetLocationRange ivc)),
            (s1, l @ [C_GetAccountContractCode addr name]))"
    by (simp add: newAuthAccountContractsRemoveFunction_def logged_simps args get code parse enums)
  show ?thesis
    unfolding eq by (simp add: effects_def)
qed

theorem remove_enum_forbidden_witness:
  "newAuthAccountContractsRemoveFunction sampleInterp (logged ledgerHandler) 1
     (invoke [StringValue ''Foo'']) (ledgerWith [69], []) =
   (Inl (ContractRemovalError ''Foo'' 0), (ledgerWith [69], [C_GetAccountContractCode 1 ''Foo'']))"
  using remove_enum_forbidden
      [where ivc = "invoke [StringValue ''Foo'']" and name = "''Foo''" and rest = "[]"
         and h = ledgerHandler and addr = 1 and s = "ledgerWith [69]" and code = "[69]"
         and ?s1.0 = "ledgerWith [69]" and I = sampleInterp and prog = "[69]" and l = "[]"]
  by (simp add: sample_defs)

section \<open>Keys: absence is a value, a host error is a fault\<close>




section \<open>Storage: commit, then measure\<close>

text \<open>
  Claim C4. The getters of the storage used and of the storage capacity call
  \<open>CommitStorage\<close> with \<open>commitContractUpdates = False\<close> first. The measurement
  (\<open>GetStorageUsed\<close>, \<open>GetStorageCapacity\<close>) is the next and last call, is made only when
  the commit returned no error, and is asked of the host state the commit returned; an
  error of the commit is raised instead.
\<close>

theorem storage_getters_commit_first:
  "snd (snd (newStorageUsedGetFunction (logged h) a (s, l))) =
     l @ C_CommitStorage False #
       (if fst (CommitStorage h False s) = None then [C_GetStorageUsed a] else [])
   \<and> snd (snd (newStorageCapacityGetFunction (logged h) a (s, l))) =
     l @ C_CommitStorage False #
       (if fst (CommitStorage h False s) = None then [C_GetStorageCapacity a] else [])
   \<and> fst (newStorageUsedGetFunction (logged h) a (s, l)) =
       (case fst (CommitStorage h False s) of
          Some e \<Rightarrow> Inl (HostError e)
        | None \<Rightarrow>
            (case fst (GetStorageUsed h a (snd (CommitStorage h False s))) of
               (used, Some e) \<Rightarrow> Inl (HostError e)
             | (used, None) \<Rightarrow> Inr (UInt64Value used)))
   \<and> fst (newStorageCapacityGetFunction (logged h) a (s, l)) =
       (case fst (CommitStorage h False s) of
          Some e \<Rightarrow> Inl (HostError e)
        | None \<Rightarrow>
            (case fst (GetStorageCapacity h a (snd (CommitStorage h False s))) of
               (capacity, Some e) \<Rightarrow> Inl (HostError e)
             | (capacity, None) \<Rightarrow> Inr (UInt64Value capacity)))"
  by (simp add: newStorageUsedGetFunction_def newStorageCapacityGetFunction_def logged_simps
        split: prod.splits option.splits)

text \<open>On the ledger, and on the host whose commit fails.\<close>

theorem storage_getters_commit_first_witness:
  "snd (snd (newStorageUsedGetFunction (logged ledgerHandler) 1 (ledgerWith [7, 8], []))) =
     [C_CommitStorage False, C_GetStorageUsed 1]
   \<and> snd (snd (newStorageCapacityGetFunction (logged ledgerHandler) 1 (ledgerWith [7, 8], []))) =
     [C_CommitStorage False, C_GetStorageCapacity 1]
   \<and> fst (newStorageUsedGetFunction (logged ledgerHandler) 1 (ledgerWith [7, 8], [])) =
       Inr (UInt64Value 2)
   \<and> snd (snd (newStorageUsedGetFunction (logged failingHandler) 1 (ledgerWith [7, 8], []))) =
     [C_CommitStorage False]
   \<and> fst (newStorageUsedGetFunction (logged failingHandler) 1 (ledgerWith [7, 8], [])) =
       Inl (HostError ''commit failed'')"
  using storage_getters_commit_first [of ledgerHandler 1 "ledgerWith [7, 8]" "[]"]
    storage_getters_commit_first [of failingHandler 1 "ledgerWith [7, 8]" "[]"]
  by (simp add: sample_defs)

section \<open>Keys: the event of a revocation\<close>

text \<open>
  Claim C5. Let the host answer \<open>RevokeAccountKey\<close> for the address and the index with
  the key \<open>key\<close> and the error \<open>err\<close>. \<^verbatim>\<open>keys.revoke\<close> calls the host first; when the
  host returned a key and no error it then emits one \<open>AccountKeyRemoved\<close> event whose
  payload is the address and the index value, and nothing more. When the host returned
  no key, or an error, the call of the host is all that happens: no event.
\<close>

theorem keys_revoke_event:
  assumes args: "Arguments ivc = IntValue n # rest"
    and toint: "ToInt I n = Inr index"
    and rev: "RevokeAccountKey h addr index s = ((key, err), s1)"
  shows "snd (snd (newAccountKeysRevokeFunction I (logged h) addr ivc (s, l))) =
           l @ C_RevokeAccountKey addr index #
             (if key \<noteq> None \<and> err = None
              then [C_EmitEvent AccountKeyRemovedEventType [AddressValue addr, IntValue n]
                      (GetLocationRange ivc)]
              else [])"
  by (auto simp add: newAccountKeysRevokeFunction_def Let_def logged_simps args toint rev
        split: option.splits sum.splits)

text \<open>A key that is there, an index without a key, and a host that fails.\<close>

theorem keys_revoke_event_witness:
  "snd (snd (newAccountKeysRevokeFunction sampleInterp (logged ledgerHandler) 1
               (invoke [IntValue 0]) (keyLedger, []))) =
     [C_RevokeAccountKey 1 0,
      C_EmitEvent AccountKeyRemovedEventType [AddressValue 1, IntValue 0] 0]
   \<and> snd (snd (newAccountKeysRevokeFunction sampleInterp (logged ledgerHandler) 1
               (invoke [IntValue 5]) (keyLedger, []))) = [C_RevokeAccountKey 1 5]
   \<and> snd (snd (newAccountKeysRevokeFunction sampleInterp (logged failingHandler) 1
               (invoke [IntValue 0]) (keyLedger, []))) = [C_RevokeAccountKey 1 0]"
  using keys_revoke_event
      [where ivc = "invoke [IntValue 0]" and n = 0 and rest = "[]" and I = sampleInterp
         and index = 0 and h = ledgerHandler and addr = 1 and s = keyLedger
         and key = "Some (sampleKey\<lparr>IsRevoked := True\<rparr>)" and err = None
         and ?s1.0 = "keyLedger\<lparr>accountKeys :=
              ((1, 0), sampleKey\<lparr>IsRevoked := True\<rparr>) # accountKeys keyLedger\<rparr>"
         and l = "[]"]
    keys_revoke_event
      [where ivc = "invoke [IntValue 5]" and n = 5 and rest = "[]" and I = sampleInterp
         and index = 5 and h = ledgerHandler and addr = 1 and s = keyLedger
         and key = None and err = None and ?s1.0 = keyLedger and l = "[]"]
    keys_revoke_event
      [where ivc = "invoke [IntValue 0]" and n = 0 and rest = "[]" and I = sampleInterp
         and index = 0 and h = failingHandler and addr = 1 and s = keyLedger
         and key = None and err = "Some ''storage corrupt''" and ?s1.0 = keyLedger and l = "[]"]
  by (simp add: sample_defs)

section \<open>Contracts: removal of a name without code\<close>

text \<open>
  Claim C6. When the host answers \<open>GetAccountContractCode\<close> with empty code and no
  error, \<^verbatim>\<open>contracts.remove\<close> returns nil. The host has received the read of the code
  and nothing else: no event is emitted, and neither \<open>RemoveAccountContractCode\<close> nor
  \<open>RecordContractRemoval\<close> is called.
\<close>

theorem remove_absent_is_nil:
  assumes args: "Arguments ivc = StringValue name # rest"
    and get: "GetAccountContractCode h addr name s = (([], None), s1)"
  shows "newAuthAccountContractsRemoveFunction I (logged h) addr ivc (s, l) =
           (Inr NilValue, (s1, l @ [C_GetAccountContractCode addr name]))
         \<and> effects (snd (snd (newAuthAccountContractsRemoveFunction I (logged h) addr ivc (s, l))))
             = effects l"
proof -
  have eq: "newAuthAccountContractsRemoveFunction I (logged h) addr ivc (s, l) =
           (Inr NilValue, (s1, l @ [C_GetAccountContractCode addr name]))"
    by (simp add: newAuthAccountContractsRemoveFunction_def logged_simps args get)
  show ?thesis
    unfolding eq by (simp add: effects_def)
qed

theorem remove_absent_is_nil_witness:
  "newAuthAccountContractsRemoveFunction sampleInterp (logged ledgerHandler) 1
     (invoke [StringValue ''Foo'']) (emptyLedger, []) =
   (Inr NilValue, (emptyLedger, [C_GetAccountContractCode 1 ''Foo'']))"
  using remove_absent_is_nil
      [where ivc = "invoke [StringValue ''Foo'']" and name = "''Foo''" and rest = "[]"
         and h = ledgerHandler and addr = 1 and s = emptyLedger and ?s1.0 = emptyLedger
         and I = sampleInterp and l = "[]"]
  by (simp add: sample_defs)

section \<open>Contracts: removal of code that does not parse\<close>

text \<open>
  Claim C7 says that for stored code that is non-empty and does not parse,
  \<^verbatim>\<open>contracts.remove\<close> calls \<open>RemoveAccountContractCode\<close> and \<open>RecordContractRemoval\<close>,
  emits the event and returns a present optional. It does not where the host refuses
  the removal: on the failing host the stored code [0, 69] is non-empty and does not
  parse, \<^verbatim>\<open>contracts.remove\<close> calls \<open>RemoveAccountContractCode\<close>, and the error that
  call returns is raised, with no call of \<open>RecordContractRemoval\<close> and no event.
\<close>

theorem remove_unparsable_completes_counterexample:
  "fst (GetAccountContractCode failingHandler 1 ''Foo'' (ledgerWith [0, 69])) = ([0, 69], None)
   \<and> snd (ParseProgram sampleInterp [0, 69]) = Some ''syntax error''
   \<and> newAuthAccountContractsRemoveFunction sampleInterp (logged failingHandler) 1
        (invoke [StringValue ''Foo'']) (ledgerWith [0, 69], []) =
      (Inl (HostError ''storage corrupt''),
       (ledgerWith [0, 69],
        [C_GetAccountContractCode 1 ''Foo'', C_RemoveAccountContractCode 1 ''Foo'']))"
  by (simp add: newAuthAccountContractsRemoveFunction_def logged_simps sample_defs)

text \<open>
  Claim C7, amended. When the code stored under the name is non-empty and the parser
  returns an error for it, \<^verbatim>\<open>contracts.remove\<close> does not raise \<open>ContractRemovalError\<close>:
  it goes on to call \<open>RemoveAccountContractCode\<close>. When that call returns no error, the
  function calls \<open>RecordContractRemoval\<close>, emits the \<open>AccountContractRemoved\<close> event with
  the address, the hash of the removed code and the name, and returns the removed code
  as a present optional. When that call returns an error, the error is raised as a host
  fault, \<open>RecordContractRemoval\<close> is not called and no event is emitted.
\<close>

theorem remove_unparsable_proceeds:
  assumes args: "Arguments ivc = StringValue name # rest"
    and get: "GetAccountContractCode h addr name s = ((code, None), s1)"
    and code: "code \<noteq> []"
    and parse: "ParseProgram I code = (prog, Some perr)"
  shows "newAuthAccountContractsRemoveFunction I (logged h) addr ivc (s, l) =
           (case RemoveAccountContractCode h addr name s1 of
              (Some err, s2) \<Rightarrow>
                (Inl (HostError err),
                 (s2, l @ [C_GetAccountContractCode addr name,
                           C_RemoveAccountContractCode addr name]))
            | (None, s2) \<Rightarrow>
                (Inr (SomeValue (DeployedContractValue (AddressValue addr) (StringValue name)
                        (ByteSliceToByteArrayValue I code))),
                 (EmitEvent h AccountContractRemovedEventType
                    [AddressValue addr, CodeToHashValue I code, StringValue name]
                    (GetLocationRange ivc) (RecordContractRemoval h addr name s2),
                  l @ [C_GetAccountContractCode addr name,
                       C_RemoveAccountContractCode addr name,
                       C_RecordContractRemoval addr name,
                       C_EmitEvent AccountContractRemovedEventType
                         [AddressValue addr, CodeToHashValue I code, StringValue name]
                         (GetLocationRange ivc)])))"
  by (simp add: newAuthAccountContractsRemoveFunction_def logged_simps args get code parse
        split: prod.splits option.splits)

text \<open>
  On the ledger, code with a zero byte does not parse; the byte 69 in it does not stop
  the removal. On the failing host the removal is attempted and its error raised.
\<close>

theorem remove_unparsable_proceeds_witness:
  "newAuthAccountContractsRemoveFunction sampleInterp (logged ledgerHandler) 1
     (invoke [StringValue ''Foo'']) (ledgerWith [0, 69], []) =
   (Inr (SomeValue (DeployedContractValue (AddressValue 1) (StringValue ''Foo'')
                      (ArrayValue [UInt8Value 0, UInt8Value 69]))),
    (emptyLedger
       \<lparr> events := [(AccountContractRemovedEventType,
                      [AddressValue 1, ArrayValue [UInt8Value 2], StringValue ''Foo''])],
         removals := [(1, ''Foo'')] \<rparr>,
     [C_GetAccountContractCode 1 ''Foo'', C_RemoveAccountContractCode 1 ''Foo'',
      C_RecordContractRemoval 1 ''Foo'',
      C_EmitEvent AccountContractRemovedEventType
        [AddressValue 1, ArrayValue [UInt8Value 2], StringValue ''Foo''] 0]))
   \<and> newAuthAccountContractsRemoveFunction sampleInterp (logged failingHandler) 1
     (invoke [StringValue ''Foo'']) (ledgerWith [0, 69], []) =
   (Inl (HostError ''storage corrupt''),
    (ledgerWith [0, 69],
     [C_GetAccountContractCode 1 ''Foo'', C_RemoveAccountContractCode 1 ''Foo'']))"
  using remove_unparsable_proceeds
      [where ivc = "invoke [StringValue ''Foo'']" and name = "''Foo''" and rest = "[]"
         and h = ledgerHandler and addr = 1 and s = "ledgerWith [0, 69]" and code = "[0, 69]"
         and ?s1.0 = "ledgerWith [0, 69]" and I = sampleInterp and prog = "[0, 69]"
         and perr = "''syntax error''" and l = "[]"]
    remove_unparsable_proceeds
      [where ivc = "invoke [StringValue ''Foo'']" and name = "''Foo''" and rest = "[]"
         and h = failingHandler and addr = 1 and s = "ledgerWith [0, 69]" and code = "[0, 69]"
         and ?s1.0 = "ledgerWith [0, 69]" and I = sampleInterp and prog = "[0, 69]"
         and perr = "''syntax error''" and l = "[]"]
  by (simp add: sample_defs CodeToHashValue_def)

section \<open>Contracts: add, then get\<close>

text \<open>
  Claim C8 says that after a successful \<^verbatim>\<open>contracts.add\<close> of a name and a code,
  \<^verbatim>\<open>contracts.get\<close> of the name returns a present deployed contract with that code. The
  function does not do so: the call that stores the code is commented out in it. On the
  ledger without contracts, \<^verbatim>\<open>add\<close> of the name Foo with the code [9] returns the
  deployed contract value, and \<^verbatim>\<open>get\<close> of Foo on the resulting host state returns nil.
\<close>

theorem add_then_get_is_nil:
  "fst (newAuthAccountContractsChangeFunction sampleInterp ledgerHandler 1 False
          (invoke [StringValue ''Foo'', ArrayValue [UInt8Value 9]]) emptyLedger)
     = Inr (DeployedContractValue (AddressValue 1) (StringValue ''Foo'')
              (ArrayValue [UInt8Value 9]))
   \<and> fst (newAccountContractsGetFunction sampleInterp ledgerHandler 1
            (invoke [StringValue ''Foo''])
            (snd (newAuthAccountContractsChangeFunction sampleInterp ledgerHandler 1 False
                    (invoke [StringValue ''Foo'', ArrayValue [UInt8Value 9]]) emptyLedger)))
     = Inr NilValue"
  by (simp add: newAuthAccountContractsChangeFunction_def newAccountContractsGetFunction_def
        Let_def sample_defs)

section \<open>Legacy keys: what the revocation returns\<close>

text \<open>
  Claim C9 says that the legacy revocation returns the key bytes to the interpreted
  code. It returns the void value: on the ledger, after the key bytes 1, 2, 3 were added,
  the revocation at index 0 returns void, not the bytes.
\<close>

theorem removePublicKey_returns_key_counterexample:
  "fst (newAddPublicKeyFunction sampleInterp ledgerHandler 1 (invoke [keyBytes]) emptyLedger)
     = Inr VoidValue
   \<and> fst (newRemovePublicKeyFunction sampleInterp ledgerHandler 1 (invoke [IntValue 0])
            (snd (newAddPublicKeyFunction sampleInterp ledgerHandler 1 (invoke [keyBytes])
                    emptyLedger)))
     = Inr VoidValue
   \<and> fst (newRemovePublicKeyFunction sampleInterp ledgerHandler 1 (invoke [IntValue 0])
            (snd (newAddPublicKeyFunction sampleInterp ledgerHandler 1 (invoke [keyBytes])
                    emptyLedger)))
     \<noteq> Inr keyBytes"
  by (simp add: newAddPublicKeyFunction_def newRemovePublicKeyFunction_def sample_defs
        keyBytes_def)

text \<open>
  Claim C9, amended. When the host answers \<open>RevokeEncodedAccountKey\<close> for the address
  and the index with the bytes \<open>publicKey\<close> and no error, the legacy revocation returns
  the void value to the interpreted code, and the bytes the host returned go unchanged,
  as a byte array value, into the payload of the one \<open>AccountKeyRemoved\<close> event it
  emits after the call of the host.
\<close>

theorem removePublicKey_returns_void:
  assumes args: "Arguments ivc = IntValue n # rest"
    and toint: "ToInt I n = Inr index"
    and rev: "RevokeEncodedAccountKey h addr index s = ((publicKey, None), s1)"
  shows "newRemovePublicKeyFunction I (logged h) addr ivc (s, l) =
           (Inr VoidValue,
            (EmitEvent h AccountKeyRemovedEventType
               [AddressValue addr, ByteSliceToByteArrayValue I publicKey]
               (GetLocationRange ivc) s1,
             l @ [C_RevokeEncodedAccountKey addr index,
                  C_EmitEvent AccountKeyRemovedEventType
                    [AddressValue addr, ByteSliceToByteArrayValue I publicKey]
                    (GetLocationRange ivc)]))"
  by (simp add: newRemovePublicKeyFunction_def logged_simps args toint rev)

text \<open>On the ledger: the key is added, then revoked at index 0.\<close>

theorem removePublicKey_returns_void_witness:
  "newAddPublicKeyFunction sampleInterp ledgerHandler 1 (invoke [keyBytes]) emptyLedger =
     (Inr VoidValue,
      emptyLedger
        \<lparr> encodedKeys := [(1, [1, 2, 3])],
          events := [(AccountKeyAddedEventType, [AddressValue 1, keyBytes])] \<rparr>)
   \<and> newRemovePublicKeyFunction sampleInterp (logged ledgerHandler) 1 (invoke [IntValue 0])
       (snd (newAddPublicKeyFunction sampleInterp ledgerHandler 1 (invoke [keyBytes]) emptyLedger),
        []) =
     (Inr VoidValue,
      (emptyLedger
         \<lparr> encodedKeys := [(1, [1, 2, 3])],
           events := [(AccountKeyAddedEventType, [AddressValue 1, keyBytes]),
                      (AccountKeyRemovedEventType, [AddressValue 1, keyBytes])] \<rparr>,
       [C_RevokeEncodedAccountKey 1 0,
        C_EmitEvent AccountKeyRemovedEventType [AddressValue 1, keyBytes] 0]))"
  using removePublicKey_returns_void
      [where ivc = "invoke [IntValue 0]" and n = 0 and rest = "[]" and I = sampleInterp
         and index = 0 and h = ledgerHandler and addr = 1
         and s = "emptyLedger
                    \<lparr> encodedKeys := [(1, [1, 2, 3])],
                      events := [(AccountKeyAddedEventType, [AddressValue 1, keyBytes])] \<rparr>"
         and publicKey = "[1, 2, 3]"
         and ?s1.0 = "emptyLedger
                    \<lparr> encodedKeys := [(1, [1, 2, 3])],
                      events := [(AccountKeyAddedEventType, [AddressValue 1, keyBytes])] \<rparr>"
         and l = "[]"]
  by (simp add: newAddPublicKeyFunction_def sample_defs keyBytes_def)

section \<open>Contracts: what add and update ask of the host\<close>

text \<open>
  Claim C10. When \<^verbatim>\<open>add\<close> or \<^verbatim>\<open>update\<close> passes its preconditions (a non-empty name, a
  code argument that is a byte array, no error from the read, and existing code exactly
  for \<^verbatim>\<open>update\<close>), the host receives the read \<open>GetAccountContractCode\<close> and then one
  \<open>EmitEvent\<close>, and no other call: no mutating method is called, and the host state is
  the one the read returned, passed through the event emitter. The function returns the
  deployed contract value holding the code argument.
\<close>

theorem change_calls_no_mutation:
  assumes args: "Arguments ivc = StringValue name # ArrayValue elems # rest"
    and conv: "ByteArrayValueToByteSlice I (ArrayValue elems) = Some code"
    and name: "name \<noteq> []"
    and get: "GetAccountContractCode h addr name s = ((existingCode, None), s1)"
    and pre: "(\<not> isUpdate \<and> existingCode = []) \<or> (isUpdate \<and> existingCode \<noteq> [])"
  shows "newAuthAccountContractsChangeFunction I (logged h) addr isUpdate ivc (s, l) =
           (Inr (DeployedContractValue (AddressValue addr) (StringValue name) (ArrayValue elems)),
            (EmitEvent h
               (if isUpdate then AccountContractUpdatedEventType
                else AccountContractAddedEventType)
               [AddressValue addr, CodeToHashValue I code, StringValue name]
               (GetLocationRange ivc) s1,
             l @ [C_GetAccountContractCode addr name,
                  C_EmitEvent
                    (if isUpdate then AccountContractUpdatedEventType
                     else AccountContractAddedEventType)
                    [AddressValue addr, CodeToHashValue I code, StringValue name]
                    (GetLocationRange ivc)]))
         \<and> filter is_mutation
             (snd (snd (newAuthAccountContractsChangeFunction I (logged h) addr isUpdate ivc
                          (s, l)))) = filter is_mutation l"
proof -
  have eq: "newAuthAccountContractsChangeFunction I (logged h) addr isUpdate ivc (s, l) =
           (Inr (DeployedContractValue (AddressValue addr) (StringValue name) (ArrayValue elems)),
            (EmitEvent h
               (if isUpdate then AccountContractUpdatedEventType
                else AccountContractAddedEventType)
               [AddressValue addr, CodeToHashValue I code, StringValue name]
               (GetLocationRange ivc) s1,
             l @ [C_GetAccountContractCode addr name,
                  C_EmitEvent
                    (if isUpdate then AccountContractUpdatedEventType
                     else AccountContractAddedEventType)
                    [AddressValue addr, CodeToHashValue I code, StringValue name]
                    (GetLocationRange ivc)]))"
    using pre name
    by (auto simp add: newAuthAccountContractsChangeFunction_def Let_def logged_simps args conv
          get)
  show ?thesis
    unfolding eq by simp
qed

text \<open>
  On the ledger: \<^verbatim>\<open>add\<close> of a new name, and \<^verbatim>\<open>update\<close> of a name that has the code [7],
  after which the ledger still holds [7] under it.
\<close>

theorem change_calls_no_mutation_witness:
  "newAuthAccountContractsChangeFunction sampleInterp (logged ledgerHandler) 1 False
     (invoke [StringValue ''Foo'', ArrayValue [UInt8Value 9]]) (emptyLedger, []) =
   (Inr (DeployedContractValue (AddressValue 1) (StringValue ''Foo'') (ArrayValue [UInt8Value 9])),
    (emptyLedger
       \<lparr> events := [(AccountContractAddedEventType,
                      [AddressValue 1, ArrayValue [UInt8Value 1], StringValue ''Foo''])] \<rparr>,
     [C_GetAccountContractCode 1 ''Foo'',
      C_EmitEvent AccountContractAddedEventType
        [AddressValue 1, ArrayValue [UInt8Value 1], StringValue ''Foo''] 0]))
   \<and> contracts (fst (snd (newAuthAccountContractsChangeFunction sampleInterp
        (logged ledgerHandler) 1 True
        (invoke [StringValue ''Foo'', ArrayValue [UInt8Value 9]]) (ledgerWith [7], []))))
      = [((1, ''Foo''), [7])]"
  using change_calls_no_mutation
      [where ivc = "invoke [StringValue ''Foo'', ArrayValue [UInt8Value 9]]"
         and name = "''Foo''" and elems = "[UInt8Value 9]" and rest = "[]" and code = "[9]"
         and h = ledgerHandler and addr = 1 and s = emptyLedger and existingCode = "[]"
         and ?s1.0 = emptyLedger and isUpdate = False and I = sampleInterp and l = "[]"]
    change_calls_no_mutation
      [where ivc = "invoke [StringValue ''Foo'', ArrayValue [UInt8Value 9]]"
         and name = "''Foo''" and elems = "[UInt8Value 9]" and rest = "[]" and code = "[9]"
         and h = ledgerHandler and addr = 1 and s = "ledgerWith [7]" and existingCode = "[7]"
         and ?s1.0 = "ledgerWith [7]" and isUpdate = True and I = sampleInterp and l = "[]"]
  by (simp add: sample_defs CodeToHashValue_def)

end
